theory Spec2Isabelle
  imports Main
begin

section \<open>Values, panics and Go's indexing primitives\<close>

text \<open>
  A value of Go's \<^verbatim>\<open>interface{}\<close> is either \<^verbatim>\<open>nil\<close> or a concrete value; the concrete
  values are left as a type parameter. A run-time panic is a result of its own: the index
  expression \<^verbatim>\<open>s[i]\<close> panics outside \<open>0 \<le> i < len(s)\<close>, and the single-channel worker
  panics with a message.
\<close>

datatype 'v iface = Nil | Val 'v

datatype panic = IndexOutOfRange int nat | Panic string

type_synonym 'v gomap = "string \<rightharpoonup> 'v iface"

text \<open>
  The index expression \<^verbatim>\<open>s[i]\<close> on a slice, with the run-time bounds check of Go.
  An index is an \<^verbatim>\<open>int\<close> of Go, modelled by \<open>int\<close>: the code compares indices and
  counts up to a slice's length, and never computes beyond that.
\<close>

definition slice_index :: "'a list \<Rightarrow> int \<Rightarrow> panic + 'a" where
  "slice_index s i =
     (if 0 \<le> i \<and> i < int (length s) then Inr (s ! nat i)
      else Inl (IndexOutOfRange i (length s)))"

text \<open>The two-valued map index \<^verbatim>\<open>value, ok := m[key]\<close>: a missing key gives the zero
  value \<^verbatim>\<open>nil\<close> and \<^verbatim>\<open>false\<close>.\<close>

definition map_index :: "'v gomap \<Rightarrow> string \<Rightarrow> 'v iface \<times> bool" where
  "map_index mp k = (case mp k of None \<Rightarrow> (Nil, False) | Some v \<Rightarrow> (v, True))"

section \<open>slice.go: ConcurrentSlice\<close>

text \<open>
  The mutex embedded in the struct is not part of the model: every method is one critical
  section, so a method is a function from the slice before the call to its result and the
  slice after the call.
\<close>

record 'v ConcurrentSlice =
  items :: "'v iface list"

record 'v ConcurrentSliceItem =
  Index :: int
  Value :: "'v iface"

definition NewConcurrentSlice :: "'v ConcurrentSlice" where
  "NewConcurrentSlice = \<lparr>items = []\<rparr>"

definition ConcurrentSlice_Append :: "'v ConcurrentSlice \<Rightarrow> 'v iface \<Rightarrow> 'v ConcurrentSlice" where
  "ConcurrentSlice_Append cs item = cs\<lparr>items := items cs @ [item]\<rparr>"

definition isset :: "'a list \<Rightarrow> int \<Rightarrow> bool" where
  "isset arr index = (int (length arr) > index)"

text \<open>\<^verbatim>\<open>Get\<close> of the variant that tests \<^verbatim>\<open>isset\<close> before it indexes.\<close>

definition ConcurrentSlice_Get ::
  "'v ConcurrentSlice \<Rightarrow> int \<Rightarrow> (panic + 'v iface) \<times> 'v ConcurrentSlice" where
  "ConcurrentSlice_Get cs index =
     (if isset (items cs) index then (slice_index (items cs) index, cs)
      else (Inr Nil, cs))"

text \<open>\<^verbatim>\<open>Get\<close> of the second variant of the file, which indexes without a test.\<close>

definition ConcurrentSlice_Get_unchecked ::
  "'v ConcurrentSlice \<Rightarrow> int \<Rightarrow> (panic + 'v iface) \<times> 'v ConcurrentSlice" where
  "ConcurrentSlice_Get_unchecked cs index = (slice_index (items cs) index, cs)"

text \<open>
  \<^verbatim>\<open>Iter\<close> makes a channel and starts a goroutine that sends one item per element and
  then closes the channel. The channel is modelled by what has been sent on it, in order,
  and by whether it has been closed. Both variants of the file have this body (one takes the
  read lock, the other the write lock).
\<close>

record 'a chan_trace =
  sent :: "'a list"
  closed :: bool

fun Iter_range ::
  "'v ConcurrentSliceItem chan_trace \<Rightarrow> int \<Rightarrow> 'v iface list \<Rightarrow> 'v ConcurrentSliceItem chan_trace"
  where
  "Iter_range c index [] = c"
| "Iter_range c index (v # rest) =
     Iter_range (c\<lparr>sent := sent c @ [\<lparr>Index = index, Value = v\<rparr>]\<rparr>) (index + 1) rest"

definition ConcurrentSlice_Iter :: "'v ConcurrentSlice \<Rightarrow> 'v ConcurrentSliceItem chan_trace" where
  "ConcurrentSlice_Iter cs = (Iter_range \<lparr>sent = [], closed = False\<rparr> 0 (items cs))\<lparr>closed := True\<rparr>"

section \<open>The map stores\<close>

subsection \<open>SyncMap\<close>

record 'v SyncMap =
  m :: "'v gomap"

definition NewSyncMap :: "'v SyncMap" where
  "NewSyncMap = \<lparr>SyncMap.m = Map.empty\<rparr>"

definition SyncMap_Get :: "'v SyncMap \<Rightarrow> string \<Rightarrow> ('v iface \<times> bool) \<times> 'v SyncMap" where
  "SyncMap_Get s k = (map_index (SyncMap.m s) k, s)"

definition SyncMap_Set :: "'v SyncMap \<Rightarrow> string \<Rightarrow> 'v iface \<Rightarrow> 'v SyncMap" where
  "SyncMap_Set s k v = s\<lparr>SyncMap.m := (SyncMap.m s)(k \<mapsto> v)\<rparr>"

subsection \<open>Requests and response channels\<close>

text \<open>
  A response channel is named by the order in which it was made. A store carries, beside
  the map its worker owns, the number of response channels made so far and, for each, the
  result the worker has handed over and the caller has not yet taken.
\<close>

type_synonym chan = nat

record 'v mapResult =
  "value" :: "'v iface"
  ok :: bool

record mapGet =
  key :: string
  out :: chan

record 'v mapSet =
  key :: string
  "value" :: "'v iface"

subsection \<open>GoMap: one worker, two request channels\<close>

record 'v GoMap =
  m :: "'v gomap"
  resp :: "chan \<rightharpoonup> 'v mapResult"
  nchan :: nat

definition NewGoMap :: "'v GoMap" where
  "NewGoMap = \<lparr>GoMap.m = Map.empty, resp = Map.empty, nchan = 0\<rparr>"

text \<open>
  What one \<^verbatim>\<open>select\<close> of the worker receives: a request from the read channel or from
  the write channel, or \<open>None\<close> when that channel is closed (\<^verbatim>\<open>ok\<close> is false).
\<close>

datatype 'v recv = RecvGet "mapGet option" | RecvSet "'v mapSet option"

text \<open>
  The worker loop, run on the requests in the order its \<^verbatim>\<open>select\<close> takes them. The
  second component tells whether the worker has returned, and so signalled \<^verbatim>\<open>done\<close>;
  it is false when the worker waits for the next request.
\<close>

fun GoMap_run :: "'v GoMap \<Rightarrow> 'v recv list \<Rightarrow> 'v GoMap \<times> bool" where
  "GoMap_run g [] = (g, False)"
| "GoMap_run g (RecvGet None # es) = (g, True)"
| "GoMap_run g (RecvGet (Some r) # es) =
     (let (v, found) = map_index (GoMap.m g) (mapGet.key r)
      in GoMap_run (g\<lparr>resp := (resp g)(out r \<mapsto> \<lparr>mapResult.value = v, ok = found\<rparr>)\<rparr>) es)"
| "GoMap_run g (RecvSet None # es) = (g, True)"
| "GoMap_run g (RecvSet (Some r) # es) =
     GoMap_run (g\<lparr>GoMap.m := (GoMap.m g)(mapSet.key r \<mapsto> mapSet.value r)\<rparr>) es"

text \<open>
  A caller's \<^verbatim>\<open>Get\<close>: make a response channel, hand the request to the worker, take the
  result from the response channel. \<open>None\<close> as a result means that the caller waits on
  the response channel for ever.
\<close>

definition GoMap_Get :: "'v GoMap \<Rightarrow> string \<Rightarrow> ('v iface \<times> bool) option \<times> 'v GoMap" where
  "GoMap_Get g k =
     (let c = nchan g;
          g1 = fst (GoMap_run (g\<lparr>nchan := Suc c\<rparr>) [RecvGet (Some \<lparr>mapGet.key = k, out = c\<rparr>)])
      in case resp g1 c of
           None \<Rightarrow> (None, g1)
         | Some r \<Rightarrow> (Some (mapResult.value r, ok r), g1\<lparr>resp := (resp g1)(c := None)\<rparr>))"

definition GoMap_Set :: "'v GoMap \<Rightarrow> string \<Rightarrow> 'v iface \<Rightarrow> 'v GoMap" where
  "GoMap_Set g k v = fst (GoMap_run g [RecvSet (Some \<lparr>mapSet.key = k, value = v\<rparr>)])"

subsection \<open>GoMap1Chan: one worker, one request channel\<close>

record 'v GoMap1Chan =
  m :: "'v gomap"
  resp :: "chan \<rightharpoonup> 'v mapResult"
  nchan :: nat

definition NewGoMap1Chan :: "'v GoMap1Chan" where
  "NewGoMap1Chan = \<lparr>GoMap1Chan.m = Map.empty, resp = Map.empty, nchan = 0\<rparr>"

text \<open>
  The request channel carries \<^verbatim>\<open>interface{}\<close>: a value on it has the dynamic type
  \<^verbatim>\<open>mapGet\<close>, or \<^verbatim>\<open>mapSet\<close>, or any other type.
\<close>

datatype 'v any = AnyGet mapGet | AnySet "'v mapSet" | AnyOther "'v iface"

text \<open>
  The worker loop over the values received from the request channel, in order; \<open>None\<close>
  is the end of the \<^verbatim>\<open>range\<close>, when the channel is closed.
\<close>

fun GoMap1Chan_run :: "'v GoMap1Chan \<Rightarrow> 'v any option list \<Rightarrow> panic + ('v GoMap1Chan \<times> bool)" where
  "GoMap1Chan_run g [] = Inr (g, False)"
| "GoMap1Chan_run g (None # es) = Inr (g, True)"
| "GoMap1Chan_run g (Some (AnyGet r) # es) =
     (let (v, found) = map_index (GoMap1Chan.m g) (mapGet.key r)
      in GoMap1Chan_run
           (g\<lparr>GoMap1Chan.resp := (GoMap1Chan.resp g)(out r \<mapsto> \<lparr>mapResult.value = v, ok = found\<rparr>)\<rparr>) es)"
| "GoMap1Chan_run g (Some (AnySet r) # es) =
     GoMap1Chan_run (g\<lparr>GoMap1Chan.m := (GoMap1Chan.m g)(mapSet.key r \<mapsto> mapSet.value r)\<rparr>) es"
| "GoMap1Chan_run g (Some (AnyOther x) # es) = Inl (Panic ''Unknown type on GoMap1Chan in'')"

definition GoMap1Chan_Get ::
  "'v GoMap1Chan \<Rightarrow> string \<Rightarrow> panic + (('v iface \<times> bool) option \<times> 'v GoMap1Chan)" where
  "GoMap1Chan_Get g k =
     (let c = GoMap1Chan.nchan g
      in case GoMap1Chan_run (g\<lparr>GoMap1Chan.nchan := Suc c\<rparr>)
                [Some (AnyGet \<lparr>mapGet.key = k, out = c\<rparr>)] of
           Inl p \<Rightarrow> Inl p
         | Inr (g1, d) \<Rightarrow>
             (case GoMap1Chan.resp g1 c of
                None \<Rightarrow> Inr (None, g1)
              | Some r \<Rightarrow>
                  Inr (Some (mapResult.value r, ok r),
                       g1\<lparr>GoMap1Chan.resp := (GoMap1Chan.resp g1)(c := None)\<rparr>)))"

definition GoMap1Chan_Set :: "'v GoMap1Chan \<Rightarrow> string \<Rightarrow> 'v iface \<Rightarrow> panic + 'v GoMap1Chan" where
  "GoMap1Chan_Set g k v =
     (case GoMap1Chan_run g [Some (AnySet \<lparr>mapSet.key = k, value = v\<rparr>)] of
        Inl p \<Rightarrow> Inl p
      | Inr (g1, d) \<Rightarrow> Inr g1)"

section \<open>Sequences of operations on the two worker stores\<close>

text \<open>
  A caller's operations, applied one after the other to a store: the results of the
  \<^verbatim>\<open>Get\<close> calls in order, and the store at the end.
\<close>

datatype 'v op = OpGet string | OpSet string "'v iface"

fun GoMap_ops :: "'v GoMap \<Rightarrow> 'v op list \<Rightarrow> ('v iface \<times> bool) option list \<times> 'v GoMap" where
  "GoMap_ops g [] = ([], g)"
| "GoMap_ops g (OpGet k # ops) =
     (case GoMap_Get g k of (r, g1) \<Rightarrow>
        (case GoMap_ops g1 ops of (rs, g2) \<Rightarrow> (r # rs, g2)))"
| "GoMap_ops g (OpSet k v # ops) = GoMap_ops (GoMap_Set g k v) ops"

fun GoMap1Chan_ops ::
  "'v GoMap1Chan \<Rightarrow> 'v op list \<Rightarrow> panic + (('v iface \<times> bool) option list \<times> 'v GoMap1Chan)" where
  "GoMap1Chan_ops g [] = Inr ([], g)"
| "GoMap1Chan_ops g (OpGet k # ops) =
     (case GoMap1Chan_Get g k of
        Inl p \<Rightarrow> Inl p
      | Inr (r, g1) \<Rightarrow>
          (case GoMap1Chan_ops g1 ops of
             Inl p \<Rightarrow> Inl p
           | Inr (rs, g2) \<Rightarrow> Inr (r # rs, g2)))"
| "GoMap1Chan_ops g (OpSet k v # ops) =
     (case GoMap1Chan_Set g k v of
        Inl p \<Rightarrow> Inl p
      | Inr g1 \<Rightarrow> GoMap1Chan_ops g1 ops)"


text \<open>What the two-channel worker receives, as a value on the single channel.\<close>

fun to_any :: "'v recv \<Rightarrow> 'v any option" where
  "to_any (RecvGet r) = map_option AnyGet r"
| "to_any (RecvSet r) = map_option AnySet r"

section \<open>Bounds of the indexed read\<close>

lemma ConcurrentSlice_Get_beyond:
  "int (length (items cs)) \<le> index \<Longrightarrow> fst (ConcurrentSlice_Get cs index) = Inr Nil"
  by (simp add: ConcurrentSlice_Get_def isset_def)

lemma ConcurrentSlice_Get_within:
  "0 \<le> index \<Longrightarrow> index < int (length (items cs)) \<Longrightarrow>
   fst (ConcurrentSlice_Get cs index) = Inr (items cs ! nat index)"
  by (simp add: ConcurrentSlice_Get_def isset_def slice_index_def)

lemma ConcurrentSlice_Get_negative:
  "index < 0 \<Longrightarrow>
   fst (ConcurrentSlice_Get cs index) = Inl (IndexOutOfRange index (length (items cs)))"
  by (simp add: ConcurrentSlice_Get_def isset_def slice_index_def)

text \<open>
  C1. The claim: on the variant that checks bounds, \<^verbatim>\<open>Get(i)\<close> with \<open>i \<ge> length\<close> or
  \<open>i < 0\<close> returns a not-found result and never crashes. The code's test \<^verbatim>\<open>isset\<close>
  compares the index with the length only, so a negative index passes it and reaches the
  index expression: on the empty slice, \<^verbatim>\<open>Get(-1)\<close> panics with index out of range.
\<close>

theorem C1_Get_negative_index_panics:
  "isset (items (NewConcurrentSlice :: string ConcurrentSlice)) (- 1) \<and>
   fst (ConcurrentSlice_Get (NewConcurrentSlice :: string ConcurrentSlice) (- 1))
     = Inl (IndexOutOfRange (- 1) 0)"
  by (simp add: ConcurrentSlice_Get_def isset_def slice_index_def NewConcurrentSlice_def)


section \<open>Iteration and appending\<close>

lemma Iter_range_sent:
  "sent (Iter_range c i xs) = sent c @ map (\<lambda>j. \<lparr>Index = i + int j, Value = xs ! j\<rparr>) [0..<length xs]"
proof (induction xs arbitrary: c i)
  case Nil
  show ?case by simp
next
  case (Cons x xs)
  have "map (\<lambda>j. \<lparr>Index = i + int j, Value = (x # xs) ! j\<rparr>) [0..<length (x # xs)]
        = \<lparr>Index = i, Value = x\<rparr> # map (\<lambda>j. \<lparr>Index = i + 1 + int j, Value = xs ! j\<rparr>) [0..<length xs]"
    by (simp add: map_upt_Suc del: upt_Suc)
  then show ?case
    by (simp add: Cons.IH del: upt_Suc)
qed

lemma Iter_range_closed: "closed (Iter_range c i xs) = closed c"
  by (induction xs arbitrary: c i) simp_all

text \<open>
  C5. \<^verbatim>\<open>Iter\<close> on a slice holding \<open>v0 .. v(n-1)\<close> sends exactly the items
  \<open>(0, v0), (1, v1), .., (n-1, v(n-1))\<close>, one per element and in increasing index
  order, and then closes the channel.
\<close>

theorem C5_Iter_items:
  "sent (ConcurrentSlice_Iter cs)
     = map (\<lambda>j. \<lparr>Index = int j, Value = items cs ! j\<rparr>) [0..<length (items cs)] \<and>
   closed (ConcurrentSlice_Iter cs)"
  by (simp add: ConcurrentSlice_Iter_def Iter_range_sent)

text \<open>
  C8. \<^verbatim>\<open>Append\<close> grows the slice by exactly one element: every position below the
  old length reads the same element before and after, and the position at the old length
  reads the appended value. \<^verbatim>\<open>Append\<close> has no failing result.
\<close>

theorem C8_Append:
  "length (items (ConcurrentSlice_Append cs v)) = Suc (length (items cs)) \<and>
   (\<forall>i. 0 \<le> i \<and> i < int (length (items cs)) \<longrightarrow>
      fst (ConcurrentSlice_Get cs i) = Inr (items cs ! nat i) \<and>
      fst (ConcurrentSlice_Get (ConcurrentSlice_Append cs v) i) = Inr (items cs ! nat i)) \<and>
   fst (ConcurrentSlice_Get (ConcurrentSlice_Append cs v) (int (length (items cs)))) = Inr v"
  by (auto simp add: ConcurrentSlice_Append_def ConcurrentSlice_Get_def isset_def slice_index_def nth_append)

theorem C8_Append_witness:
  "fst (ConcurrentSlice_Get (ConcurrentSlice_Append \<lparr>items = [Val (1::nat), Nil]\<rparr> (Val 2)) 0) = Inr (Val 1) \<and>
   fst (ConcurrentSlice_Get (ConcurrentSlice_Append \<lparr>items = [Val (1::nat), Nil]\<rparr> (Val 2)) 1) = Inr Nil \<and>
   fst (ConcurrentSlice_Get (ConcurrentSlice_Append \<lparr>items = [Val (1::nat), Nil]\<rparr> (Val 2)) 2) = Inr (Val 2)"
  using C8_Append [of "\<lparr>items = [Val (1::nat), Nil]\<rparr>" "Val 2"]
  by simp


section \<open>The stores as seen by a caller\<close>

lemma GoMap_Get_eq:
  "GoMap_Get g k =
     (Some (map_index (GoMap.m g) k),
      g\<lparr>GoMap.resp := (GoMap.resp g)(GoMap.nchan g := None), GoMap.nchan := Suc (GoMap.nchan g)\<rparr>)"
  by (simp add: GoMap_Get_def Let_def split: prod.split)

lemma GoMap_Set_eq: "GoMap_Set g k v = g\<lparr>GoMap.m := (GoMap.m g)(k \<mapsto> v)\<rparr>"
  by (simp add: GoMap_Set_def)

lemma GoMap1Chan_Get_eq:
  "GoMap1Chan_Get g k =
     Inr (Some (map_index (GoMap1Chan.m g) k),
          g\<lparr>GoMap1Chan.resp := (GoMap1Chan.resp g)(GoMap1Chan.nchan g := None),
            GoMap1Chan.nchan := Suc (GoMap1Chan.nchan g)\<rparr>)"
  by (simp add: GoMap1Chan_Get_def Let_def split: prod.split)

lemma GoMap1Chan_Set_eq:
  "GoMap1Chan_Set g k v = Inr (g\<lparr>GoMap1Chan.m := (GoMap1Chan.m g)(k \<mapsto> v)\<rparr>)"
  by (simp add: GoMap1Chan_Set_def)

text \<open>
  The two worker stores, driven by the same operations from the same mapping, give the same
  results and the same final mapping; the single-channel store does not panic on the way.
\<close>

lemma ops_equiv:
  "GoMap.m g = GoMap1Chan.m h \<Longrightarrow>
   \<exists>h'. GoMap1Chan_ops h ops = Inr (fst (GoMap_ops g ops), h') \<and>
        GoMap1Chan.m h' = GoMap.m (snd (GoMap_ops g ops))"
proof (induction ops arbitrary: g h)
  case Nil
  then show ?case by simp
next
  case (Cons x ops)
  show ?case
  proof (cases x)
    case (OpGet k)
    let ?g1 = "snd (GoMap_Get g k)"
    let ?h1 = "h\<lparr>GoMap1Chan.resp := (GoMap1Chan.resp h)(GoMap1Chan.nchan h := None),
                 GoMap1Chan.nchan := Suc (GoMap1Chan.nchan h)\<rparr>"
    have "GoMap.m ?g1 = GoMap1Chan.m ?h1"
      using Cons.prems by (simp add: GoMap_Get_eq)
    from Cons.IH [OF this] obtain h' where
      "GoMap1Chan_ops ?h1 ops = Inr (fst (GoMap_ops ?g1 ops), h')"
      "GoMap1Chan.m h' = GoMap.m (snd (GoMap_ops ?g1 ops))"
      by blast
    then show ?thesis
      using Cons.prems OpGet
      by (simp add: GoMap_Get_eq GoMap1Chan_Get_eq split: prod.split)
  next
    case (OpSet k v)
    let ?g1 = "GoMap_Set g k v"
    let ?h1 = "h\<lparr>GoMap1Chan.m := (GoMap1Chan.m h)(k \<mapsto> v)\<rparr>"
    have "GoMap.m ?g1 = GoMap1Chan.m ?h1"
      using Cons.prems by (simp add: GoMap_Set_eq)
    from Cons.IH [OF this] show ?thesis
      using OpSet by (simp add: GoMap1Chan_Set_eq)
  qed
qed

text \<open>
  The same at the level of the two worker loops: on the same requests in the same order of
  receipt, they hand over the same replies, end with the same mapping and return (or keep
  waiting) alike.
\<close>

lemma run_equiv:
  "GoMap.m g = GoMap1Chan.m h \<Longrightarrow> GoMap.resp g = GoMap1Chan.resp h \<Longrightarrow>
   \<exists>h'. GoMap1Chan_run h (map to_any es) = Inr (h', snd (GoMap_run g es)) \<and>
        GoMap1Chan.m h' = GoMap.m (fst (GoMap_run g es)) \<and>
        GoMap1Chan.resp h' = GoMap.resp (fst (GoMap_run g es))"
proof (induction es arbitrary: g h)
  case Nil
  then show ?case by simp
next
  case (Cons e es)
  show ?case
  proof (cases e)
    case (RecvGet ro)
    show ?thesis
    proof (cases ro)
      case None
      with RecvGet Cons.prems show ?thesis by simp
    next
      case (Some r)
      obtain v found where look: "map_index (GoMap1Chan.m h) (mapGet.key r) = (v, found)"
        by (cases "map_index (GoMap1Chan.m h) (mapGet.key r)")
      let ?g1 = "g\<lparr>GoMap.resp := (GoMap.resp g)(out r \<mapsto> \<lparr>mapResult.value = v, ok = found\<rparr>)\<rparr>"
      let ?h1 = "h\<lparr>GoMap1Chan.resp := (GoMap1Chan.resp h)(out r \<mapsto> \<lparr>mapResult.value = v, ok = found\<rparr>)\<rparr>"
      have "GoMap.m ?g1 = GoMap1Chan.m ?h1" "GoMap.resp ?g1 = GoMap1Chan.resp ?h1"
        using Cons.prems by simp_all
      from Cons.IH [OF this] show ?thesis
        using RecvGet Some look Cons.prems by simp
    qed
  next
    case (RecvSet ro)
    show ?thesis
    proof (cases ro)
      case None
      with RecvSet Cons.prems show ?thesis by simp
    next
      case (Some r)
      let ?g1 = "g\<lparr>GoMap.m := (GoMap.m g)(mapSet.key r \<mapsto> mapSet.value r)\<rparr>"
      let ?h1 = "h\<lparr>GoMap1Chan.m := (GoMap1Chan.m h)(mapSet.key r \<mapsto> mapSet.value r)\<rparr>"
      have "GoMap.m ?g1 = GoMap1Chan.m ?h1" "GoMap.resp ?g1 = GoMap1Chan.resp ?h1"
        using Cons.prems by simp_all
      from Cons.IH [OF this] show ?thesis
        using RecvSet Some by simp
    qed
  qed
qed


section \<open>Claims about the stores\<close>

text \<open>
  C3. Starting from an empty store of each kind (SyncMap, GoMap, GoMap1Chan),
  \<^verbatim>\<open>Set("7", "The value 7")\<close> followed by \<^verbatim>\<open>Get("7")\<close> returns
  \<^verbatim>\<open>("The value 7", true)\<close>, and \<^verbatim>\<open>Get("999")\<close> on the same store afterwards returns
  \<^verbatim>\<open>(nil, false)\<close>.
\<close>

theorem C3_end_to_end:
  "fst (SyncMap_Get (SyncMap_Set NewSyncMap ''7'' (Val ''The value 7'')) ''7'')
     = (Val ''The value 7'', True) \<and>
   fst (SyncMap_Get (snd (SyncMap_Get (SyncMap_Set NewSyncMap ''7'' (Val ''The value 7'')) ''7'')) ''999'')
     = (Nil, False) \<and>
   fst (GoMap_Get (GoMap_Set NewGoMap ''7'' (Val ''The value 7'')) ''7'')
     = Some (Val ''The value 7'', True) \<and>
   fst (GoMap_Get (snd (GoMap_Get (GoMap_Set NewGoMap ''7'' (Val ''The value 7'')) ''7'')) ''999'')
     = Some (Nil, False) \<and>
   (\<exists>g1 g2 g3.
      GoMap1Chan_Set NewGoMap1Chan ''7'' (Val ''The value 7'') = Inr g1 \<and>
      GoMap1Chan_Get g1 ''7'' = Inr (Some (Val ''The value 7'', True), g2) \<and>
      GoMap1Chan_Get g2 ''999'' = Inr (Some (Nil, False), g3))"
  by (simp add: SyncMap_Get_def SyncMap_Set_def NewSyncMap_def GoMap_Get_eq GoMap_Set_eq
      NewGoMap_def GoMap1Chan_Get_eq GoMap1Chan_Set_eq NewGoMap1Chan_def map_index_def)

text \<open>
  C4. For every sequence of \<^verbatim>\<open>Get\<close> and \<^verbatim>\<open>Set\<close> operations applied in the same
  order to a GoMap and to a GoMap1Chan that hold the same mapping, the single-channel store
  does not panic, every \<^verbatim>\<open>Get\<close> returns the same result on both, and both end with
  the same mapping.
\<close>

theorem C4_GoMap_GoMap1Chan_equivalent:
  assumes "GoMap.m g = GoMap1Chan.m h"
  shows "\<exists>h'. GoMap1Chan_ops h ops = Inr (fst (GoMap_ops g ops), h') \<and>
              GoMap1Chan.m h' = GoMap.m (snd (GoMap_ops g ops))"
  using assms by (rule ops_equiv)

theorem C4_GoMap_GoMap1Chan_equivalent_witness:
  "\<exists>h'. GoMap1Chan_ops (NewGoMap1Chan :: string GoMap1Chan)
           [OpSet ''7'' (Val ''The value 7''), OpGet ''7'', OpSet ''7'' Nil, OpGet ''7'', OpGet ''999'']
         = Inr ([Some (Val ''The value 7'', True), Some (Nil, True), Some (Nil, False)], h') \<and>
        GoMap1Chan.m h' = [''7'' \<mapsto> Nil]"
proof -
  have same: "GoMap.m (NewGoMap :: string GoMap) = GoMap1Chan.m (NewGoMap1Chan :: string GoMap1Chan)"
    by (simp add: NewGoMap_def NewGoMap1Chan_def)
  show ?thesis
    using C4_GoMap_GoMap1Chan_equivalent [OF same,
        of "[OpSet ''7'' (Val ''The value 7''), OpGet ''7'', OpSet ''7'' Nil, OpGet ''7'', OpGet ''999'']"]
    by (simp add: GoMap_Get_eq GoMap_Set_eq NewGoMap_def map_index_def)
qed

text \<open>
  C6. On every store, the last \<^verbatim>\<open>Set\<close> of a key wins: after \<^verbatim>\<open>Set(k, v1)\<close> and
  \<^verbatim>\<open>Set(k, v2)\<close>, \<^verbatim>\<open>Get(k)\<close> returns \<^verbatim>\<open>(v2, true)\<close>, and \<^verbatim>\<open>Get\<close> of any other
  key returns what it returned before the two calls.
\<close>

theorem C6_last_Set_wins:
  "fst (SyncMap_Get (SyncMap_Set (SyncMap_Set s k v1) k v2) k) = (v2, True) \<and>
   (k' \<noteq> k \<longrightarrow>
      fst (SyncMap_Get (SyncMap_Set (SyncMap_Set s k v1) k v2) k') = fst (SyncMap_Get s k')) \<and>
   fst (GoMap_Get (GoMap_Set (GoMap_Set g k v1) k v2) k) = Some (v2, True) \<and>
   (k' \<noteq> k \<longrightarrow>
      fst (GoMap_Get (GoMap_Set (GoMap_Set g k v1) k v2) k') = fst (GoMap_Get g k')) \<and>
   (\<exists>h1 h2 h3.
      GoMap1Chan_Set h k v1 = Inr h1 \<and> GoMap1Chan_Set h1 k v2 = Inr h2 \<and>
      GoMap1Chan_Get h2 k = Inr (Some (v2, True), h3) \<and>
      (k' \<noteq> k \<longrightarrow>
         (\<exists>r h4 h5. GoMap1Chan_Get h2 k' = Inr (r, h4) \<and> GoMap1Chan_Get h k' = Inr (r, h5))))"
  by (simp add: SyncMap_Get_def SyncMap_Set_def GoMap_Get_eq GoMap_Set_eq
      GoMap1Chan_Get_eq GoMap1Chan_Set_eq map_index_def)

theorem C6_last_Set_wins_witness:
  "fst (SyncMap_Get (SyncMap_Set (SyncMap_Set (SyncMap_Set NewSyncMap ''b'' (Val ''old'')) ''a''
          (Val ''one'')) ''a'' (Val ''two'')) ''a'') = (Val ''two'', True) \<and>
   fst (SyncMap_Get (SyncMap_Set (SyncMap_Set (SyncMap_Set NewSyncMap ''b'' (Val ''old'')) ''a''
          (Val ''one'')) ''a'' (Val ''two'')) ''b'') = (Val ''old'', True) \<and>
   fst (GoMap_Get (GoMap_Set (GoMap_Set (GoMap_Set NewGoMap ''b'' (Val ''old'')) ''a''
          (Val ''one'')) ''a'' (Val ''two'')) ''b'') = Some (Val ''old'', True)"
  using C6_last_Set_wins [of "SyncMap_Set NewSyncMap ''b'' (Val ''old'')" "''a''" "Val ''one''"
      "Val ''two''" "''b''" "GoMap_Set NewGoMap ''b'' (Val ''old'')" NewGoMap1Chan]
  by (simp add: SyncMap_Get_def SyncMap_Set_def NewSyncMap_def GoMap_Get_eq GoMap_Set_eq
      NewGoMap_def map_index_def)



text \<open>
  C10. Every \<^verbatim>\<open>Get\<close> is read-only: on a SyncMap and on the slice (either variant) the
  state after the call is the state before it, and on the two worker stores the mapping
  after the call is the mapping before it.
\<close>

theorem C10_Get_read_only:
  "snd (SyncMap_Get s k) = s \<and>
   GoMap.m (snd (GoMap_Get g k)) = GoMap.m g \<and>
   (\<exists>res h'. GoMap1Chan_Get h k = Inr (res, h') \<and> GoMap1Chan.m h' = GoMap1Chan.m h) \<and>
   snd (ConcurrentSlice_Get cs i) = cs \<and>
   snd (ConcurrentSlice_Get_unchecked cs i) = cs"
  by (simp add: SyncMap_Get_def GoMap_Get_eq GoMap1Chan_Get_eq ConcurrentSlice_Get_def
      ConcurrentSlice_Get_unchecked_def)

text \<open>
  C2. The claim: \<^verbatim>\<open>Get(index)\<close> on the slice returns a pair of a value and a found flag,
  and absence is reported by the flag. The method has one result, the item: reading
  position 0 of a slice that holds \<^verbatim>\<open>nil\<close> there and reading position 0 of the empty
  slice give the same result, so nothing in the result tells presence from absence.
\<close>

theorem C2_Get_no_found_flag:
  "fst (ConcurrentSlice_Get \<lparr>items = [Nil :: string iface]\<rparr> 0) = Inr Nil \<and>
   fst (ConcurrentSlice_Get \<lparr>items = ([] :: string iface list)\<rparr> 0) = Inr Nil \<and>
   (0 :: int) < int (length [Nil :: string iface]) \<and>
   \<not> (0 :: int) < int (length ([] :: string iface list))"
  by (simp add: ConcurrentSlice_Get_def isset_def slice_index_def)

text \<open>
  C2, as the code has it. \<^verbatim>\<open>Get(index)\<close> on the slice returns one value: the element
  for \<open>0 \<le> index < length\<close>, and \<^verbatim>\<open>nil\<close> for \<open>index \<ge> length\<close>. \<^verbatim>\<open>Get\<close> of a key
  that a map store does not hold returns \<^verbatim>\<open>(nil, false)\<close>. None of these panics.
\<close>

theorem C2_Get_absence:
  "(int (length (items cs)) \<le> i \<longrightarrow> fst (ConcurrentSlice_Get cs i) = Inr Nil) \<and>
   (0 \<le> i \<and> i < int (length (items cs)) \<longrightarrow>
      fst (ConcurrentSlice_Get cs i) = Inr (items cs ! nat i)) \<and>
   (SyncMap.m s k = None \<longrightarrow> fst (SyncMap_Get s k) = (Nil, False)) \<and>
   (GoMap.m g k = None \<longrightarrow> fst (GoMap_Get g k) = Some (Nil, False)) \<and>
   (GoMap1Chan.m h k = None \<longrightarrow> (\<exists>h'. GoMap1Chan_Get h k = Inr (Some (Nil, False), h')))"
  by (simp add: ConcurrentSlice_Get_beyond ConcurrentSlice_Get_within SyncMap_Get_def
      GoMap_Get_eq GoMap1Chan_Get_eq map_index_def)

theorem C2_Get_absence_witness:
  "fst (ConcurrentSlice_Get \<lparr>items = [Val ''a'', Val ''b'']\<rparr> 2) = Inr Nil \<and>
   fst (ConcurrentSlice_Get \<lparr>items = [Val ''a'', Val ''b'']\<rparr> 1) = Inr (Val ''b'') \<and>
   fst (SyncMap_Get (NewSyncMap :: string SyncMap) ''999'') = (Nil, False) \<and>
   fst (GoMap_Get (NewGoMap :: string GoMap) ''999'') = Some (Nil, False) \<and>
   (\<exists>h'. GoMap1Chan_Get (NewGoMap1Chan :: string GoMap1Chan) ''999'' = Inr (Some (Nil, False), h'))"
  using C2_Get_absence [of "\<lparr>items = [Val ''a'', Val ''b'']\<rparr>" 2 NewSyncMap "''999''" NewGoMap NewGoMap1Chan]
    C2_Get_absence [of "\<lparr>items = [Val ''a'', Val ''b'']\<rparr>" 1 NewSyncMap "''999''" NewGoMap NewGoMap1Chan]
  by (simp add: NewSyncMap_def NewGoMap_def NewGoMap1Chan_def) blast

end
